theory Spec2Isabelle
  imports Complex_Main
begin

section \<open>Address book: Haversine distance and the radius search\<close>

text \<open>
  The development embeds \<^verbatim>\<open>haversine_distance\<close> of \<^verbatim>\<open>utils.py\<close> and
  \<^verbatim>\<open>get_addresses_within_distance\<close> of \<^verbatim>\<open>main.py\<close>.

  Numbers. Python's \<^verbatim>\<open>float\<close> is modelled by \<^typ>\<open>real\<close>: arithmetic is exact, there
  is no rounding, no NaN and no infinity. Comparisons, the order of the checks, the
  error values and the structure of the loop are those of the program. The value of a
  rounded expression is not: the program evaluates \<^verbatim>\<open>a\<close> in binary64, and where the
  exact value sits on the boundary of \<open>[0, 1]\<close> the rounded one can leave the interval
  (see the last section). The theorems below are stated so that they hold of the
  outcome of the program as well as of the exact model: they do not assert that a
  rounded computation returns, nor what number it returns, except where the program's
  arithmetic is exact.

  Errors. Every \<^verbatim>\<open>raise\<close> of the source is a value \<open>Inl e\<close>; a normal return is
  \<open>Inr v\<close>. Logging has no influence on any returned value and is left out; the
  decorator \<^verbatim>\<open>log_input_output\<close> returns the wrapped function's result and re-raises its
  exception unchanged, so the decorated function is the function.
\<close>

subsection \<open>Exceptions\<close>

datatype error =
    ValueError string
  | HTTPException nat string

subsection \<open>The functions of Python's math module that the code calls\<close>

text \<open>\<^verbatim>\<open>math.radians(x)\<close>: degrees to radians.\<close>

definition math_radians :: "real \<Rightarrow> real" where
  "math_radians x = x * (pi / 180)"

text \<open>\<^verbatim>\<open>math.sqrt(x)\<close> raises \<^verbatim>\<open>ValueError('math domain error')\<close> on a negative argument.\<close>

definition math_sqrt :: "real \<Rightarrow> error + real" where
  "math_sqrt x = (if x < 0 then Inl (ValueError ''math domain error'') else Inr (sqrt x))"

text \<open>
  \<^verbatim>\<open>math.atan2(y, x)\<close>: the angle of the point \<open>(x, y)\<close> in \<open>(-pi, pi]\<close>, and \<open>0\<close> at
  the origin.
\<close>

definition math_atan2 :: "real \<Rightarrow> real \<Rightarrow> real" where
  "math_atan2 y x =
     (if 0 < x then arctan (y / x)
      else if x < 0 then (if 0 \<le> y then arctan (y / x) + pi else arctan (y / x) - pi)
      else if 0 < y then pi / 2
      else if y < 0 then - (pi / 2)
      else 0)"

subsection \<open>utils.py: haversine_distance\<close>

definition EARTH_RADIUS_KM :: real where
  "EARTH_RADIUS_KM = 6371"

text \<open>
  The local variable \<^verbatim>\<open>a\<close>, with \<^verbatim>\<open>delta_lat\<close> and \<^verbatim>\<open>delta_lon\<close> as the code binds them.
  This is the exact value of the expression; the program holds its binary64 rounding.
\<close>

definition haversine_a :: "real \<Rightarrow> real \<Rightarrow> real \<Rightarrow> real \<Rightarrow> real" where
  "haversine_a lat1 lon1 lat2 lon2 =
     (let delta_lat = math_radians (lat2 - lat1);
          delta_lon = math_radians (lon2 - lon1)
      in (sin (delta_lat / 2))\<^sup>2 +
         cos (math_radians lat1) * cos (math_radians lat2) * (sin (delta_lon / 2))\<^sup>2)"

definition haversine_distance :: "real \<Rightarrow> real \<Rightarrow> real \<Rightarrow> real \<Rightarrow> error + real" where
  "haversine_distance lat1 lon1 lat2 lon2 =
     (if \<not> (- 90 \<le> lat1 \<and> lat1 \<le> 90) \<or> \<not> (- 90 \<le> lat2 \<and> lat2 \<le> 90)
      then Inl (ValueError ''Latitude values must be between -90 and 90 degrees'')
      else if \<not> (- 180 \<le> lon1 \<and> lon1 \<le> 180) \<or> \<not> (- 180 \<le> lon2 \<and> lon2 \<le> 180)
      then Inl (ValueError ''Longitude values must be between -180 and 180 degrees'')
      else
        let a = haversine_a lat1 lon1 lat2 lon2 in
        case math_sqrt a of
          Inl e \<Rightarrow> Inl e
        | Inr sqrt_a \<Rightarrow>
            (case math_sqrt (1 - a) of
               Inl e \<Rightarrow> Inl e
             | Inr sqrt_1_a \<Rightarrow>
                 let c = 2 * math_atan2 sqrt_a sqrt_1_a
                 in Inr (EARTH_RADIUS_KM * c)))"

subsection \<open>main.py: get_addresses_within_distance\<close>

text \<open>A row of the table \<^verbatim>\<open>addresses\<close> (\<^verbatim>\<open>models.py\<close>); the column \<^verbatim>\<open>id\<close> is \<open>address_id\<close>.\<close>

record AddressModel =
  address_id :: int
  name :: string
  latitude :: real
  longitude :: real

text \<open>
  The \<^verbatim>\<open>for addr in all_addresses\<close> loop. \<open>result\<close> is the list built so far; an
  address is appended when its distance is at most \<open>distance_km\<close>; any exception of the
  distance computation is caught and the loop continues with the next address.
\<close>

fun scan_addresses ::
  "real \<Rightarrow> real \<Rightarrow> real \<Rightarrow> AddressModel list \<Rightarrow> AddressModel list \<Rightarrow> AddressModel list" where
  "scan_addresses lat lon distance_km [] result = result"
| "scan_addresses lat lon distance_km (addr # rest) result =
     (case haversine_distance lat lon (latitude addr) (longitude addr) of
        Inr dist_km \<Rightarrow>
          if dist_km \<le> distance_km
          then scan_addresses lat lon distance_km rest (result @ [addr])
          else scan_addresses lat lon distance_km rest result
      | Inl e \<Rightarrow> scan_addresses lat lon distance_km rest result)"

text \<open>
  The body of the outer \<^verbatim>\<open>try\<close>. \<open>all_addresses\<close> is what
  \<^verbatim>\<open>db.query(AddressModel).all()\<close> returns; the query comes after the three checks.
\<close>

definition get_addresses_within_distance_try ::
  "real \<Rightarrow> real \<Rightarrow> real \<Rightarrow> AddressModel list \<Rightarrow> error + AddressModel list" where
  "get_addresses_within_distance_try lat lon distance_km all_addresses =
     (if \<not> (- 90 \<le> lat \<and> lat \<le> 90)
      then Inl (ValueError ''Latitude must be between -90 and 90 degrees'')
      else if \<not> (- 180 \<le> lon \<and> lon \<le> 180)
      then Inl (ValueError ''Longitude must be between -180 and 180 degrees'')
      else if distance_km \<le> 0
      then Inl (ValueError ''Distance must be a positive value'')
      else Inr (scan_addresses lat lon distance_km all_addresses []))"

text \<open>
  The whole function: the outer \<^verbatim>\<open>except Exception\<close> replaces whatever the body raised
  by \<^verbatim>\<open>HTTPException(status_code=500, detail="Failed to search addresses")\<close>.
\<close>

definition get_addresses_within_distance ::
  "real \<Rightarrow> real \<Rightarrow> real \<Rightarrow> AddressModel list \<Rightarrow> error + AddressModel list" where
  "get_addresses_within_distance lat lon distance_km all_addresses =
     (case get_addresses_within_distance_try lat lon distance_km all_addresses of
        Inl e \<Rightarrow> Inl (HTTPException 500 ''Failed to search addresses'')
      | Inr result \<Rightarrow> Inr result)"

subsection \<open>The coordinate domains\<close>

abbreviation lat_in_domain :: "real \<Rightarrow> bool" where
  "lat_in_domain x \<equiv> - 90 \<le> x \<and> x \<le> 90"

abbreviation lon_in_domain :: "real \<Rightarrow> bool" where
  "lon_in_domain x \<equiv> - 180 \<le> x \<and> x \<le> 180"

section \<open>Auxiliary facts\<close>

subsection \<open>Trigonometry\<close>

lemma sin_half_squared: "(sin (x / 2))\<^sup>2 = (1 - cos x) / 2" for x :: real
  using cos_double_sin [of "x / 2"] by simp

lemma haversine_term_le_1:
  fixes p q t :: real
  assumes "- (pi / 2) \<le> p" "p \<le> pi / 2" "- (pi / 2) \<le> q" "q \<le> pi / 2"
    and "0 \<le> t" "t \<le> 1"
  shows "(sin ((q - p) / 2))\<^sup>2 + cos p * cos q * t \<le> 1"
proof -
  have cp: "0 \<le> cos p" and cq: "0 \<le> cos q"
    using assms by (simp_all add: cos_ge_zero)
  have shrink: "cos p * cos q * t \<le> cos p * cos q"
    using mult_left_mono [of t 1 "cos p * cos q"] cp cq assms by simp
  have sum_angle: "(sin ((q - p) / 2))\<^sup>2 + cos p * cos q = (1 + cos (p + q)) / 2"
    by (simp add: sin_half_squared cos_diff cos_add field_simps)
  have "(sin ((q - p) / 2))\<^sup>2 + cos p * cos q * t
      \<le> (sin ((q - p) / 2))\<^sup>2 + cos p * cos q"
    using shrink by simp
  also have "\<dots> \<le> 1"
    unfolding sum_angle using cos_le_one [of "p + q"] by simp
  finally show ?thesis .
qed

lemma math_atan2_first_quadrant:
  "0 \<le> y \<Longrightarrow> 0 \<le> x \<Longrightarrow> 0 \<le> math_atan2 y x \<and> math_atan2 y x \<le> pi / 2"
  using arctan_ubound [of "y / x"] by (auto simp: math_atan2_def)

text \<open>
  The definition of \<open>math_atan2\<close> is the polar angle: it lies in \<open>(-pi, pi]\<close>, and away
  from the origin its cosine and sine are the normalised coordinates.
\<close>

lemma sqrt_one_plus_ratio:
  fixes x y :: real
  assumes "x \<noteq> 0"
  shows "sqrt (1 + (y / x)\<^sup>2) = sqrt (x\<^sup>2 + y\<^sup>2) / \<bar>x\<bar>"
proof -
  have "1 + (y / x)\<^sup>2 = (x\<^sup>2 + y\<^sup>2) / x\<^sup>2"
    using assms by (simp add: power_divide add_divide_distrib)
  then show ?thesis
    by (simp add: real_sqrt_divide)
qed

lemma math_atan2_range: "- pi < math_atan2 y x \<and> math_atan2 y x \<le> pi"
proof -
  have b: "- (pi / 2) < arctan (y / x)" "arctan (y / x) < pi / 2"
    by (rule arctan_lbound, rule arctan_ubound)
  have neg: "x < 0 \<Longrightarrow> 0 \<le> y \<Longrightarrow> arctan (y / x) \<le> 0"
    by (simp add: divide_nonneg_neg)
  have pos: "x < 0 \<Longrightarrow> y < 0 \<Longrightarrow> 0 < arctan (y / x)"
    by (simp add: divide_neg_neg)
  show ?thesis
    using b neg pos by (auto simp: math_atan2_def)
qed

lemma math_atan2_polar:
  assumes "x \<noteq> 0 \<or> y \<noteq> 0"
  shows "cos (math_atan2 y x) = x / sqrt (x\<^sup>2 + y\<^sup>2) \<and>
         sin (math_atan2 y x) = y / sqrt (x\<^sup>2 + y\<^sup>2)"
proof (cases "x = 0")
  case True
  then show ?thesis using assms
    by (auto simp: math_atan2_def abs_if)
next
  case False
  have c: "cos (arctan (y / x)) = \<bar>x\<bar> / sqrt (x\<^sup>2 + y\<^sup>2)"
    using False by (simp add: cos_arctan sqrt_one_plus_ratio)
  have s: "sin (arctan (y / x)) = (y / x) * \<bar>x\<bar> / sqrt (x\<^sup>2 + y\<^sup>2)"
    using False by (simp add: sin_arctan sqrt_one_plus_ratio)
  show ?thesis
    using False c s by (auto simp: math_atan2_def abs_if sin_diff cos_diff)
qed

lemma math_radians_lat:
  assumes "lat_in_domain x"
  shows "- (pi / 2) \<le> math_radians x \<and> math_radians x \<le> pi / 2"
proof -
  have "(- 90) * pi \<le> x * pi" and "x * pi \<le> 90 * pi"
    using assms by (simp_all only: mult_right_mono pi_ge_zero)
  then show ?thesis
    by (simp add: math_radians_def)
qed

lemma math_radians_diff: "math_radians (x - y) = math_radians x - math_radians y"
  by (simp add: math_radians_def left_diff_distrib)

lemma math_radians_flip: "math_radians (x - y) / 2 = - (math_radians (y - x) / 2)"
  by (simp add: math_radians_diff diff_divide_distrib)

subsection \<open>The intermediate value a\<close>

text \<open>
  The exact value. For latitudes in the domain both cosines are non-negative, and
  \<open>sin\<^sup>2 ((q - p) / 2) + cos p * cos q = (1 + cos (p + q)) / 2\<close>, so the exact value
  of \<open>a\<close> lies in \<open>[0, 1]\<close>. These are bounds on the exact value of the expression;
  they do not bound the value a binary64 evaluation rounds it to.
\<close>

lemma haversine_a_nonneg:
  assumes "lat_in_domain lat1" "lat_in_domain lat2"
  shows "0 \<le> haversine_a lat1 lon1 lat2 lon2"
proof -
  have "0 \<le> cos (math_radians lat1)" "0 \<le> cos (math_radians lat2)"
    using math_radians_lat [OF assms(1)] math_radians_lat [OF assms(2)]
    by (simp_all add: cos_ge_zero)
  then have "0 \<le> cos (math_radians lat1) * cos (math_radians lat2)
      * (sin (math_radians (lon2 - lon1) / 2))\<^sup>2"
    by simp
  then show ?thesis
    by (simp add: haversine_a_def Let_def)
qed

lemma haversine_a_le_1:
  assumes "lat_in_domain lat1" "lat_in_domain lat2"
  shows "haversine_a lat1 lon1 lat2 lon2 \<le> 1"
proof -
  have sq: "(sin (math_radians (lon2 - lon1) / 2))\<^sup>2 \<le> 1"
    using abs_sin_le_one [of "math_radians (lon2 - lon1) / 2"]
    by (simp add: abs_square_le_1)
  show ?thesis
    using haversine_term_le_1 [of "math_radians lat1" "math_radians lat2"
        "(sin (math_radians (lon2 - lon1) / 2))\<^sup>2"]
      math_radians_lat [OF assms(1)] math_radians_lat [OF assms(2)] sq
    by (simp add: haversine_a_def Let_def math_radians_diff)
qed

lemma haversine_a_sym: "haversine_a lat2 lon2 lat1 lon1 = haversine_a lat1 lon1 lat2 lon2"
proof -
  have flip: "(sin (math_radians (x - y) / 2))\<^sup>2 = (sin (math_radians (y - x) / 2))\<^sup>2"
    for x y :: real
    by (simp only: math_radians_flip [of x y] sin_minus power2_minus)
  show ?thesis
    by (simp add: haversine_a_def Let_def flip [of lat1 lat2] flip [of lon1 lon2] mult.commute)
qed

lemma haversine_a_same: "haversine_a lat lon lat lon = 0"
  by (simp add: haversine_a_def math_radians_def)

subsection \<open>The loop is a filter\<close>

lemma scan_addresses_filter:
  "scan_addresses lat lon distance_km addrs result =
     result @ filter (\<lambda>addr.
       case haversine_distance lat lon (latitude addr) (longitude addr) of
         Inr dist_km \<Rightarrow> dist_km \<le> distance_km
       | Inl e \<Rightarrow> False) addrs"
  by (induction addrs arbitrary: result) (simp_all split: sum.splits)

lemma get_addresses_within_distance_valid:
  assumes "lat_in_domain lat" "lon_in_domain lon" "0 < distance_km"
  shows "get_addresses_within_distance lat lon distance_km addrs =
     Inr (filter (\<lambda>addr.
       case haversine_distance lat lon (latitude addr) (longitude addr) of
         Inr dist_km \<Rightarrow> dist_km \<le> distance_km
       | Inl e \<Rightarrow> False) addrs)"
  using assms
  by (simp add: get_addresses_within_distance_def get_addresses_within_distance_try_def
      scan_addresses_filter)

section \<open>The distance function\<close>

text \<open>
  C4, as the code has it. When some latitude or longitude is outside its domain,
  \<open>haversine_distance\<close> fails with a \<open>ValueError\<close> whose message is one of two fixed
  texts: the latitude text when a latitude is out of range, the longitude text
  otherwise. Both error branches come before the formula and hold no trigonometric term.
  The message names the kind of coordinate and its range.
\<close>

theorem haversine_distance_invalid:
  assumes "\<not> lat_in_domain lat1 \<or> \<not> lat_in_domain lat2 \<or>
           \<not> lon_in_domain lon1 \<or> \<not> lon_in_domain lon2"
  shows "haversine_distance lat1 lon1 lat2 lon2 =
    Inl (ValueError
      (if lat_in_domain lat1 \<and> lat_in_domain lat2
       then ''Longitude values must be between -180 and 180 degrees''
       else ''Latitude values must be between -90 and 90 degrees''))"
  using assms by (auto simp add: haversine_distance_def)

theorem haversine_distance_invalid_witness:
  "\<not> lon_in_domain 500 \<and>
   haversine_distance 12.9 500 12.9 77.5 =
    Inl (ValueError ''Longitude values must be between -180 and 180 degrees'')"
  using haversine_distance_invalid [of "12.9" "12.9" 500 "77.5"] by simp

text \<open>
  C4, as stated, asks the error to name which value and which bound was violated. The
  error is the same when \<open>lat1\<close> is above the upper bound and when \<open>lat2\<close> is below the
  lower bound, so it identifies neither the argument nor the bound.
\<close>

theorem haversine_distance_error_not_specific:
  "haversine_distance 100 0 0 0 =
     Inl (ValueError ''Latitude values must be between -90 and 90 degrees'') \<and>
   haversine_distance 0 0 (- 100) 0 =
     Inl (ValueError ''Latitude values must be between -90 and 90 degrees'')"
  by (simp add: haversine_distance_def)

text \<open>
  C6. The distance is symmetric: for two points in the domain, the call with the points
  exchanged has the same outcome, the same number when one call returns a number.
\<close>

theorem haversine_distance_swap:
  assumes "lat_in_domain lat1" "lon_in_domain lon1" "lat_in_domain lat2" "lon_in_domain lon2"
  shows "haversine_distance lat1 lon1 lat2 lon2 = haversine_distance lat2 lon2 lat1 lon1"
  using assms
  by (simp add: haversine_distance_def haversine_a_sym [of lat1 lon1 lat2 lon2])

theorem haversine_distance_swap_witness:
  "lat_in_domain 12.9716 \<and> lon_in_domain 77.5946 \<and>
   lat_in_domain 12.2958 \<and> lon_in_domain 76.6394 \<and>
   haversine_distance 12.9716 77.5946 12.2958 76.6394 =
   haversine_distance 12.2958 76.6394 12.9716 77.5946"
  using haversine_distance_swap [of "12.9716" "77.5946" "12.2958" "76.6394"] by simp

text \<open>
  C7. The distance from a point of the domain to itself is zero, hence within
  \<open>10\<^sup>-\<^sup>4\<close> km of zero.
\<close>

theorem haversine_distance_same_point:
  assumes "lat_in_domain lat" "lon_in_domain lon"
  shows "\<exists>d. haversine_distance lat lon lat lon = Inr d \<and> d = 0 \<and> \<bar>d\<bar> < 1 / 10000"
  using assms
  by (simp add: haversine_distance_def haversine_a_same math_sqrt_def math_atan2_def)

theorem haversine_distance_same_point_witness:
  "lat_in_domain 12.9716 \<and> lon_in_domain 77.5946 \<and>
   (\<exists>d. haversine_distance 12.9716 77.5946 12.9716 77.5946 = Inr d \<and> d = 0 \<and>
      \<bar>d\<bar> < 1 / 10000)"
  using haversine_distance_same_point [of "12.9716" "77.5946"] by simp

text \<open>
  C8. For points in the domain, a result of the distance function is non-negative and
  at most half the circumference of the sphere, \<open>pi * 6371\<close> km. The proof uses only
  that both square roots were taken, which is what a returned result means.
\<close>

theorem haversine_distance_result_bounded:
  assumes "lat_in_domain lat1" "lon_in_domain lon1" "lat_in_domain lat2" "lon_in_domain lon2"
    and "haversine_distance lat1 lon1 lat2 lon2 = Inr d"
  shows "0 \<le> d \<and> d \<le> pi * 6371"
proof -
  let ?a = "haversine_a lat1 lon1 lat2 lon2"
  have roots: "\<not> ?a < 0 \<and> \<not> 1 - ?a < 0"
    using assms
    by (simp add: haversine_distance_def math_sqrt_def Let_def split: if_splits)
  then have d: "d = EARTH_RADIUS_KM * (2 * math_atan2 (sqrt ?a) (sqrt (1 - ?a)))"
    using assms
    by (simp add: haversine_distance_def math_sqrt_def Let_def)
  have "0 \<le> sqrt ?a" and "0 \<le> sqrt (1 - ?a)"
    using roots by simp_all
  then have "0 \<le> math_atan2 (sqrt ?a) (sqrt (1 - ?a))"
    and "math_atan2 (sqrt ?a) (sqrt (1 - ?a)) \<le> pi / 2"
    using math_atan2_first_quadrant by blast+
  then show ?thesis
    by (simp add: d EARTH_RADIUS_KM_def)
qed

theorem haversine_distance_result_bounded_witness:
  "lat_in_domain 12.9716 \<and> lon_in_domain 77.5946 \<and>
   haversine_distance 12.9716 77.5946 12.9716 77.5946 = Inr 0 \<and>
   (0 :: real) \<le> 0 \<and> (0 :: real) \<le> pi * 6371"
  using haversine_distance_result_bounded [of "12.9716" "77.5946" "12.9716" "77.5946" 0]
  by (simp add: haversine_distance_def haversine_a_same math_sqrt_def math_atan2_def)

text \<open>
  C10. The latitudes are checked before the longitudes: when a latitude and a longitude
  are both out of range, the error raised is the latitude error.
\<close>

theorem haversine_distance_latitude_first:
  assumes "\<not> lat_in_domain lat1 \<or> \<not> lat_in_domain lat2"
    and "\<not> lon_in_domain lon1 \<or> \<not> lon_in_domain lon2"
  shows "haversine_distance lat1 lon1 lat2 lon2 =
    Inl (ValueError ''Latitude values must be between -90 and 90 degrees'')"
  using assms(1) by (simp add: haversine_distance_def)

theorem haversine_distance_latitude_first_witness:
  "\<not> lat_in_domain 100 \<and> \<not> lon_in_domain 500 \<and>
   haversine_distance 100 500 0 0 =
    Inl (ValueError ''Latitude values must be between -90 and 90 degrees'')"
  using haversine_distance_latitude_first [of 100 0 500 0] by simp

section \<open>The radius filter\<close>

text \<open>
  C3. For a center in the domain and a positive radius, a candidate whose distance
  computation fails is left out, the call still returns, and the result is the result
  for the list without that candidate.
\<close>

theorem radius_filter_skips_failing:
  assumes "lat_in_domain lat" "lon_in_domain lon" "0 < distance_km"
    and "haversine_distance lat lon (latitude bad) (longitude bad) = Inl e"
  shows "\<exists>result.
     get_addresses_within_distance lat lon distance_km (before @ bad # after) = Inr result \<and>
     bad \<notin> set result \<and>
     get_addresses_within_distance lat lon distance_km (before @ after) = Inr result"
  using assms(4) by (simp add: get_addresses_within_distance_valid [OF assms(1-3)])

theorem radius_filter_skips_failing_witness:
  "lat_in_domain 0 \<and> lon_in_domain 0 \<and> (0 :: real) < 10 \<and>
   haversine_distance 0 0
     (latitude \<lparr>address_id = 2, name = ''Bad'', latitude = 100, longitude = 0\<rparr>)
     (longitude \<lparr>address_id = 2, name = ''Bad'', latitude = 100, longitude = 0\<rparr>) =
       Inl (ValueError ''Latitude values must be between -90 and 90 degrees'') \<and>
   (\<exists>result.
     get_addresses_within_distance 0 0 10
       ([\<lparr>address_id = 1, name = ''Home'', latitude = 0, longitude = 0\<rparr>] @
        \<lparr>address_id = 2, name = ''Bad'', latitude = 100, longitude = 0\<rparr> #
        [\<lparr>address_id = 3, name = ''Far'', latitude = 0, longitude = 180\<rparr>]) = Inr result \<and>
     \<lparr>address_id = 2, name = ''Bad'', latitude = 100, longitude = 0\<rparr> \<notin> set result \<and>
     get_addresses_within_distance 0 0 10
       ([\<lparr>address_id = 1, name = ''Home'', latitude = 0, longitude = 0\<rparr>] @
        [\<lparr>address_id = 3, name = ''Far'', latitude = 0, longitude = 180\<rparr>]) = Inr result)"
proof -
  have bad: "haversine_distance 0 0
     (latitude \<lparr>address_id = 2, name = ''Bad'', latitude = 100, longitude = 0\<rparr>)
     (longitude \<lparr>address_id = 2, name = ''Bad'', latitude = 100, longitude = 0\<rparr>) =
       Inl (ValueError ''Latitude values must be between -90 and 90 degrees'')"
    by (simp add: haversine_distance_def)
  show ?thesis
    using bad radius_filter_skips_failing [OF _ _ _ bad, of 10
        "[\<lparr>address_id = 1, name = ''Home'', latitude = 0, longitude = 0\<rparr>]"
        "[\<lparr>address_id = 3, name = ''Far'', latitude = 0, longitude = 180\<rparr>]"]
    by simp
qed

text \<open>
  C5, as the code has it. When the center's latitude or longitude is out of its domain
  or the radius is not positive, the function fails whatever the candidates are, and
  the failure it surfaces is always the same
  \<^verbatim>\<open>HTTPException(500, "Failed to search addresses")\<close>. The cause is told apart only
  inside the \<^verbatim>\<open>try\<close> block, by the \<open>ValueError\<close> raised before the candidates are
  fetched: the latitude message first, then the longitude message, then the radius
  message.
\<close>

theorem radius_filter_invalid_query:
  assumes "\<not> lat_in_domain lat \<or> \<not> lon_in_domain lon \<or> distance_km \<le> 0"
  shows "get_addresses_within_distance lat lon distance_km addrs =
       Inl (HTTPException 500 ''Failed to search addresses'') \<and>
     get_addresses_within_distance_try lat lon distance_km addrs =
       Inl (ValueError
         (if \<not> lat_in_domain lat then ''Latitude must be between -90 and 90 degrees''
          else if \<not> lon_in_domain lon then ''Longitude must be between -180 and 180 degrees''
          else ''Distance must be a positive value''))"
  using assms
  by (auto simp add: get_addresses_within_distance_def get_addresses_within_distance_try_def)

theorem radius_filter_invalid_query_witness:
  "(- 5 :: real) \<le> 0 \<and>
   get_addresses_within_distance 40.7128 (- 74.0060) (- 5)
       [\<lparr>address_id = 1, name = ''Home'', latitude = 40.7128, longitude = - 74.0060\<rparr>] =
       Inl (HTTPException 500 ''Failed to search addresses'') \<and>
   get_addresses_within_distance_try 40.7128 (- 74.0060) (- 5)
       [\<lparr>address_id = 1, name = ''Home'', latitude = 40.7128, longitude = - 74.0060\<rparr>] =
       Inl (ValueError ''Distance must be a positive value'')"
  using radius_filter_invalid_query [of "40.7128" "- 74.0060" "- 5"
      "[\<lparr>address_id = 1, name = ''Home'', latitude = 40.7128, longitude = - 74.0060\<rparr>]"]
  by simp

text \<open>
  C5, as stated, has a non-positive radius fail with an error of kind InvalidRadius and
  an out-of-domain center with one of kind InvalidCoordinate. The function surfaces one
  and the same error in both cases; and inside the \<^verbatim>\<open>try\<close> block a non-positive radius
  with an out-of-domain latitude raises the latitude error, not the radius error.
\<close>

theorem radius_filter_error_kind_lost:
  "get_addresses_within_distance 0 0 (- 5) [] =
     Inl (HTTPException 500 ''Failed to search addresses'') \<and>
   get_addresses_within_distance 100 0 10 [] =
     Inl (HTTPException 500 ''Failed to search addresses'') \<and>
   get_addresses_within_distance_try 100 0 (- 5) [] =
     Inl (ValueError ''Latitude must be between -90 and 90 degrees'')"
  by (simp add: get_addresses_within_distance_def get_addresses_within_distance_try_def)

section \<open>Where rounding leaves the exact model\<close>

text \<open>
  For a point and its antipode the exact value of \<open>a\<close> is \<open>1\<close>, the upper end of the
  interval: \<open>sin\<^sup>2 x + cos\<^sup>2 x\<close>. So any excess of the rounded sum over the exact
  one makes \<^verbatim>\<open>1 - a\<close> negative, and \<^verbatim>\<open>math.sqrt(1 - a)\<close> raises. At
  \<^verbatim>\<open>haversine_distance(8, -90, -8, 90)\<close> the binary64 evaluation gives
  \<^verbatim>\<open>a = 1.0000000000000002\<close> and the call raises
  \<^verbatim>\<open>ValueError('math domain error')\<close>; the source does not clamp \<^verbatim>\<open>a\<close>. In
  \<^verbatim>\<open>get_addresses_within_distance\<close> the inner \<^verbatim>\<open>except\<close> catches that error, so such a
  candidate is left out of the result whatever the radius. The two lemmas give the
  exact value of \<open>a\<close> there; they say nothing of the rounded one.
\<close>

lemma haversine_a_antipodal:
  "haversine_a lat lon (- lat) (lon + 180) = 1"
proof -
  have lat: "math_radians (- (2 * lat)) / 2 = - math_radians lat"
    by (simp add: math_radians_def)
  have lon: "math_radians 180 / 2 = pi / 2"
    by (simp add: math_radians_def)
  have neg: "math_radians (- lat) = - math_radians lat"
    by (simp add: math_radians_def)
  show ?thesis
    by (simp add: haversine_a_def Let_def lat lon neg power2_eq_square [symmetric])
qed

lemma haversine_a_exact_at_8_90: "haversine_a 8 (- 90) (- 8) 90 = 1"
  using haversine_a_antipodal [of 8 "- 90"] by simp

end
